theory Spec2Isabelle
  imports Complex_Main "HOL-Library.Product_Lexorder"
begin

section \<open>Strings and numbers of the host language\<close>

text \<open>
  A string is a list of code units; \<open>length\<close> is the source's \<open>.length\<close>. A \<open>char\<close>
  holds the code units below 256 only. The page-count contents end in one CJK code
  unit (U+9875), which is written here as the single character \<open>pageUnit\<close> so that
  lengths agree with the source; the other CJK literals of the source (descriptions and
  recommendations, which no function inspects) are written as ASCII glosses.
\<close>

definition newline :: char where
  "newline = CHR 0x0A"

definition pageUnit :: char where
  "pageUnit = CHR 0x98"

text \<open>The class \<open>\s\<close> of regular expressions and the characters removed by \<open>trim\<close>
  (restricted to code units below 256).\<close>

definition isWhitespace :: "char \<Rightarrow> bool" where
  "isWhitespace c \<longleftrightarrow> c \<in> set [CHR 0x09, CHR 0x0A, CHR 0x0B, CHR 0x0C, CHR 0x0D, CHR 0x20, CHR 0xA0]"

definition trim :: "string \<Rightarrow> string" where
  "trim s = rev (dropWhile isWhitespace (rev (dropWhile isWhitespace s)))"

text \<open>\<open>s.substring(a, b)\<close>: both indices are clamped to \<open>[0, length]\<close> and swapped when
  the first exceeds the second.\<close>

definition substring :: "string \<Rightarrow> int \<Rightarrow> int \<Rightarrow> string" where
  "substring s a b =
     (let n = int (length s);
          a' = min (max a 0) n;
          b' = min (max b 0) n;
          from = min a' b';
          to = max a' b'
      in take (nat (to - from)) (drop (nat from) s))"

text \<open>\<open>s.split('\n')\<close>: the pieces between line feeds; the empty string gives one
  empty piece.\<close>

fun splitNewline :: "string \<Rightarrow> string list" where
  "splitNewline [] = [[]]"
| "splitNewline (c # cs) =
     (if c = newline then [] # splitNewline cs
      else (case splitNewline cs of
              [] \<Rightarrow> [[c]]
            | p # ps \<Rightarrow> (c # p) # ps))"

text \<open>\<open>xs.join('\n')\<close>.\<close>

fun joinNewline :: "string list \<Rightarrow> string" where
  "joinNewline [] = []"
| "joinNewline [x] = x"
| "joinNewline (x # y # ys) = x @ newline # joinNewline (y # ys)"

text \<open>\<open>(s.match(/\n/g) || []).length\<close>: the number of line feeds of \<open>s\<close>.\<close>

definition countNewlines :: "string \<Rightarrow> nat" where
  "countNewlines s = length (filter (\<lambda>c. c = newline) s)"

text \<open>The decimal numeral of a natural number, as a template literal prints it.\<close>

definition digitChar :: "nat \<Rightarrow> char" where
  "digitChar d = ''0123456789'' ! d"

function show_nat :: "nat \<Rightarrow> string" where
  "show_nat n = (if n < 10 then [digitChar n] else show_nat (n div 10) @ [digitChar (n mod 10)])"
  by pat_completeness auto
termination
  by (relation "measure id") auto

declare show_nat.simps [simp del]

text \<open>
  The scores are IEEE doubles in the source. They are modelled as exact rationals,
  together with the three values a division by zero produces. No rounding is modelled.
\<close>

datatype jsnum = Finite rat | NaN | PosInfinity | NegInfinity

text \<open>\<open>a / b\<close> for finite \<open>a\<close> and a finite \<open>b\<close> that is not negative.\<close>

definition js_div :: "rat \<Rightarrow> rat \<Rightarrow> jsnum" where
  "js_div a b =
     (if b = 0 then (if a = 0 then NaN else if 0 < a then PosInfinity else NegInfinity)
      else Finite (a / b))"

text \<open>\<open>Math.max(0, x)\<close>: NaN if \<open>x\<close> is NaN.\<close>

fun js_max0 :: "jsnum \<Rightarrow> jsnum" where
  "js_max0 (Finite q) = Finite (max 0 q)"
| "js_max0 NaN = NaN"
| "js_max0 PosInfinity = PosInfinity"
| "js_max0 NegInfinity = Finite 0"

text \<open>\<open>x || 0\<close>: zero and NaN are falsy.\<close>

fun js_or0 :: "jsnum \<Rightarrow> jsnum" where
  "js_or0 (Finite q) = Finite q"
| "js_or0 NaN = Finite 0"
| "js_or0 PosInfinity = PosInfinity"
| "js_or0 NegInfinity = NegInfinity"

section \<open>Data model (types/advanced)\<close>

text \<open>
  Fields that no modelled function reads are left out: the identifier, name, MIME type,
  size and metadata of a document, and the height and width of a page.
\<close>

record DocumentPosition =
  page :: nat
  line :: nat
  column :: nat
  offset :: nat
  absoluteOffset :: nat

record DocumentLine =
  lineNumber :: nat
  line_content :: string
  startOffset :: nat
  endOffset :: nat
  line_pageNumber :: nat

record DocumentPage =
  pageNumber :: nat
  page_content :: string
  lines :: "DocumentLine list"
  renderOffset :: nat

record DocumentSection =
  section_id :: string
  title :: string
  level :: nat
  startPosition :: DocumentPosition
  endPosition :: DocumentPosition
  section_content :: string

record PositionIndex =
  offsetToPosition :: "nat \<rightharpoonup> DocumentPosition"
  positionToOffset :: "string \<rightharpoonup> nat"
  lineIndex :: "nat \<rightharpoonup> DocumentLine"
  pageIndex :: "nat \<rightharpoonup> DocumentPage"

record DocumentStructure =
  pageCount :: nat
  lineCount :: nat
  characterCount :: nat
  pages :: "DocumentPage list"
  sections :: "DocumentSection list"
  positionIndex :: PositionIndex

datatype DifferenceType = TAddition | TDeletion | TModification | TFormat | TStructure

datatype Severity = Low | Medium | High | Critical

datatype Category = CText | CFormat | CStructure | CMetadata

record PreciseDifference =
  diff_id :: string
  diff_type :: DifferenceType
  severity :: Severity
  category :: Category
  description :: string
  leftContent :: string
  rightContent :: string
  leftPosition :: DocumentPosition
  rightPosition :: DocumentPosition
  contextBefore :: string
  contextAfter :: string
  similarity :: rat
  confidence :: rat

record ComparisonStatistics =
  totalDifferences :: nat
  additions :: nat
  deletions :: nat
  modifications :: nat
  formatChanges :: nat
  structureChanges :: nat
  critical :: nat
  high :: nat
  medium :: nat
  low :: nat
  pageDistribution :: "nat \<rightharpoonup> nat"
  overallSimilarity :: jsnum
  averageConfidence :: jsnum

record ComparisonSummary =
  majorChanges :: "string list"
  structuralChanges :: "string list"
  summary_formatChanges :: "string list"
  recommendations :: "string list"

record ComparisonResult =
  differences :: "PreciseDifference list"
  statistics :: ComparisonStatistics
  summary :: ComparisonSummary

section \<open>The diff package\<close>

text \<open>
  \<open>diffLines\<close> and \<open>diffWords\<close> come from the package \<open>diff\<close>, which is not part of the
  repository. The engine is therefore modelled over an arbitrary pair of such functions.
  A part of an edit script carries its text and the two flags the engine tests.
\<close>

record Change =
  part_value :: string
  added :: bool
  removed :: bool

record DiffLib =
  diffLines :: "string \<Rightarrow> string \<Rightarrow> Change list"
  diffWords :: "string \<Rightarrow> string \<Rightarrow> Change list"

text \<open>
  An edit script generator used for the concrete examples: equal texts give one unchanged
  part (none when the text is empty), different texts give the left text as removed and
  the right text as added.
\<close>

definition wholeTextDiff :: "string \<Rightarrow> string \<Rightarrow> Change list" where
  "wholeTextDiff l r =
     (if l = r then (if l = [] then [] else [\<lparr>part_value = l, added = False, removed = False\<rparr>])
      else (if l = [] then [] else [\<lparr>part_value = l, added = False, removed = True\<rparr>]) @
           (if r = [] then [] else [\<lparr>part_value = r, added = True, removed = False\<rparr>]))"

definition wholeTextLib :: DiffLib where
  "wholeTextLib = \<lparr>diffLines = wholeTextDiff, diffWords = wholeTextDiff\<rparr>"

section \<open>The comparison engine (AdvancedDiffEngine)\<close>

text \<open>
  The only failure of the engine: the call of a method that the class does not define
  raises a \<open>TypeError\<close>.
\<close>

datatype error = TypeError

subsection \<open>Helper methods\<close>

definition extractFullContent :: "DocumentStructure \<Rightarrow> string" where
  "extractFullContent doc = joinNewline (map page_content (pages doc))"

text \<open>
  \<open>s.split(/\n\s*\n/)\<close>. A separator starts at a line feed whose following run of
  whitespace holds another line feed, and ends at the last line feed of that run
  (\<open>\s*\<close> is greedy). \<open>cur\<close> is the piece read so far.
\<close>

definition afterLastNewline :: "string \<Rightarrow> string" where
  "afterLastNewline ws = rev (takeWhile (\<lambda>c. c \<noteq> newline) (rev ws))"

fun splitParagraphs :: "string \<Rightarrow> string \<Rightarrow> string list" where
  "splitParagraphs cur [] = [cur]"
| "splitParagraphs cur (c # cs) =
     (let ws = takeWhile isWhitespace cs in
      if c = newline \<and> newline \<in> set ws
      then cur # splitParagraphs [] (drop (length ws - length (afterLastNewline ws)) cs)
      else splitParagraphs (cur @ [c]) cs)"

definition extractParagraphs :: "DocumentStructure \<Rightarrow> string list" where
  "extractParagraphs doc =
     filter (\<lambda>para. length (trim para) > 0) (splitParagraphs [] (extractFullContent doc))"

definition defaultPosition :: DocumentPosition where
  "defaultPosition = \<lparr>page = 1, line = 1, column = 1, offset = 0, absoluteOffset = 0\<rparr>"

text \<open>The loop of \<open>findPositionByLineIndex\<close> over the pages; \<open>currentLine\<close> is the
  number of lines of the pages already passed.\<close>

fun findPositionLoop :: "DocumentPage list \<Rightarrow> nat \<Rightarrow> nat \<Rightarrow> DocumentPosition" where
  "findPositionLoop [] currentLine lineIdx = defaultPosition"
| "findPositionLoop (pg # pgs) currentLine lineIdx =
     (if currentLine + length (lines pg) > lineIdx
      then (let dline = lines pg ! (lineIdx - currentLine)
            in \<lparr>page = pageNumber pg, line = lineNumber dline, column = 1, offset = 0,
                absoluteOffset = startOffset dline\<rparr>)
      else findPositionLoop pgs (currentLine + length (lines pg)) lineIdx)"

definition findPositionByLineIndex :: "DocumentStructure \<Rightarrow> nat \<Rightarrow> DocumentPosition" where
  "findPositionByLineIndex doc lineIdx = findPositionLoop (pages doc) 0 lineIdx"

definition findPositionByContent :: "DocumentStructure \<Rightarrow> string \<Rightarrow> nat \<Rightarrow> DocumentPosition" where
  "findPositionByContent doc cont paragraphIndex =
     \<lparr>page = 1, line = paragraphIndex + 1, column = 1, offset = 0, absoluteOffset = 0\<rparr>"

definition getContextBefore :: "DocumentStructure \<Rightarrow> DocumentPosition \<Rightarrow> string" where
  "getContextBefore doc pos = []"

definition getContextAfter :: "DocumentStructure \<Rightarrow> DocumentPosition \<Rightarrow> string" where
  "getContextAfter doc pos = []"

definition getWordContext :: "string \<Rightarrow> int \<Rightarrow> int \<Rightarrow> string" where
  "getWordContext text pos len =
     (let start = max 0 (pos + (if len < 0 then len else 0));
          stop = min (int (length text)) (pos + (if len > 0 then len else 0))
      in substring text start stop)"

definition calculateSeverity :: "string \<Rightarrow> Severity" where
  "calculateSeverity cont =
     (let len = length (trim cont);
          lineCnt = countNewlines cont
      in if lineCnt > 10 \<or> len > 500 then Critical
         else if lineCnt > 5 \<or> len > 200 then High
         else if lineCnt > 1 \<or> len > 50 then Medium
         else Low)"

definition calculateWordSeverity :: "string \<Rightarrow> Severity" where
  "calculateWordSeverity word = (if length word > 20 then Medium else Low)"

text \<open>
  \<open>levenshteinDistance\<close> fills a matrix with one row for each character of \<open>str2\<close>.
  \<open>levRow c str1 prev left\<close> computes the entries \<open>1, 2, ...\<close> of the row of the character
  \<open>c\<close>: \<open>prev\<close> is the part of the row above that starts one column to the left, and
  \<open>left\<close> is the entry just computed.
\<close>

fun levRow :: "char \<Rightarrow> string \<Rightarrow> nat list \<Rightarrow> nat \<Rightarrow> nat list" where
  "levRow c (x # xs) (pd # pu # ps) left =
     (let v = (if c = x then pd else min (pd + 1) (min (left + 1) (pu + 1)))
      in v # levRow c xs (pu # ps) v)"
| "levRow c xs ps left = []"

fun levRows :: "string \<Rightarrow> nat list \<Rightarrow> nat \<Rightarrow> string \<Rightarrow> nat list" where
  "levRows str1 prev i [] = prev"
| "levRows str1 prev i (c # cs) = levRows str1 (i # levRow c str1 prev i) (i + 1) cs"

definition levenshteinDistance :: "string \<Rightarrow> string \<Rightarrow> nat" where
  "levenshteinDistance str1 str2 = last (levRows str1 [0..<length str1 + 1] 1 str2)"

definition calculateWordSimilarity :: "string \<Rightarrow> string \<Rightarrow> rat" where
  "calculateWordSimilarity left right =
     (let longer = (if length left > length right then left else right);
          shorter = (if length left > length right then right else left)
      in if length longer = 0 then 1
         else (let editDistance = levenshteinDistance longer shorter
               in (of_nat (length longer) - of_nat editDistance) / of_nat (length longer)))"

subsection \<open>Line-level differ\<close>

text \<open>The two objects that \<open>detectLineDifferences\<close> pushes: for an added part, at the
  position of the current line of the right document, and for a removed part, at the
  position of the current line of the left document.\<close>

definition lineAddition :: "DocumentStructure \<Rightarrow> Change \<Rightarrow> nat \<Rightarrow> nat \<Rightarrow> PreciseDifference" where
  "lineAddition rightDoc part rightLineIndex diffIndex =
     (let rightPos = findPositionByLineIndex rightDoc rightLineIndex
      in \<lparr>diff_id = ''line-add-'' @ show_nat diffIndex,
          diff_type = TAddition,
          severity = calculateSeverity (part_value part),
          category = CText,
          description = ''added content: '' @ substring (part_value part) 0 50 @ ''...'',
          leftContent = [],
          rightContent = part_value part,
          leftPosition = rightPos,
          rightPosition = rightPos,
          contextBefore = getContextBefore rightDoc rightPos,
          contextAfter = getContextAfter rightDoc rightPos,
          similarity = 0,
          confidence = 9 / 10\<rparr>)"

definition lineDeletion :: "DocumentStructure \<Rightarrow> Change \<Rightarrow> nat \<Rightarrow> nat \<Rightarrow> PreciseDifference" where
  "lineDeletion leftDoc part leftLineIndex diffIndex =
     (let leftPos = findPositionByLineIndex leftDoc leftLineIndex
      in \<lparr>diff_id = ''line-del-'' @ show_nat diffIndex,
          diff_type = TDeletion,
          severity = calculateSeverity (part_value part),
          category = CText,
          description = ''removed content: '' @ substring (part_value part) 0 50 @ ''...'',
          leftContent = part_value part,
          rightContent = [],
          leftPosition = leftPos,
          rightPosition = leftPos,
          contextBefore = getContextBefore leftDoc leftPos,
          contextAfter = getContextAfter leftDoc leftPos,
          similarity = 0,
          confidence = 9 / 10\<rparr>)"

text \<open>
  The body of \<open>lineDiffs.forEach\<close> with its three counters and the list of differences
  pushed so far. The branch of an unchanged part calls \<open>this.detectWordLevelChanges\<close>,
  which \<open>AdvancedDiffEngine\<close> does not define: the call raises a \<open>TypeError\<close>.
\<close>

fun lineDiffLoop ::
  "DocumentStructure \<Rightarrow> DocumentStructure \<Rightarrow> Change list \<Rightarrow> nat \<Rightarrow> nat \<Rightarrow> nat \<Rightarrow>
   PreciseDifference list \<Rightarrow> error + PreciseDifference list" where
  "lineDiffLoop leftDoc rightDoc [] leftLineIndex rightLineIndex diffIndex acc = Inr acc"
| "lineDiffLoop leftDoc rightDoc (part # parts) leftLineIndex rightLineIndex diffIndex acc =
     (if added part then
        lineDiffLoop leftDoc rightDoc parts leftLineIndex
          (rightLineIndex + countNewlines (part_value part)) (diffIndex + 1)
          (acc @ [lineAddition rightDoc part rightLineIndex diffIndex])
      else if removed part then
        lineDiffLoop leftDoc rightDoc parts
          (leftLineIndex + countNewlines (part_value part)) rightLineIndex (diffIndex + 1)
          (acc @ [lineDeletion leftDoc part leftLineIndex diffIndex])
      else Inl TypeError)"

definition detectLineDifferences ::
  "DiffLib \<Rightarrow> DocumentStructure \<Rightarrow> DocumentStructure \<Rightarrow> error + PreciseDifference list" where
  "detectLineDifferences lib leftDoc rightDoc =
     lineDiffLoop leftDoc rightDoc
       (diffLines lib (extractFullContent leftDoc) (extractFullContent rightDoc)) 0 0 0 []"

subsection \<open>Word-level differ\<close>

text \<open>The object that \<open>detectWordDifferences\<close> pushes for an added or removed part of
  paragraph \<open>i\<close>; \<open>idx\<close> is the index of the part and \<open>wordIndex\<close> the running offset in
  the paragraph.\<close>

definition wordDifference ::
  "DocumentStructure \<Rightarrow> DocumentStructure \<Rightarrow> nat \<Rightarrow> string \<Rightarrow> string \<Rightarrow> Change \<Rightarrow>
   nat \<Rightarrow> nat \<Rightarrow> PreciseDifference" where
  "wordDifference leftDoc rightDoc i leftPara rightPara part idx wordIndex =
     (let pos = findPositionByContent (if added part then rightDoc else leftDoc)
                  (part_value part) i
      in \<lparr>diff_id = ''word-'' @ (if added part then ''add'' else ''del'') @ ''-'' @
                     show_nat i @ ''-'' @ show_nat idx,
          diff_type = (if added part then TAddition else TDeletion),
          severity = calculateWordSeverity (part_value part),
          category = CText,
          description = (if added part then ''added'' else ''removed'') @ '' words: '' @
                        part_value part,
          leftContent = (if removed part then part_value part else []),
          rightContent = (if added part then part_value part else []),
          leftPosition = pos,
          rightPosition = pos,
          contextBefore = getWordContext leftPara (int wordIndex) (- 10),
          contextAfter =
            getWordContext leftPara (int (wordIndex + length (part_value part))) 10,
          similarity = calculateWordSimilarity leftPara rightPara,
          confidence = 8 / 10\<rparr>)"

text \<open>The body of \<open>wordDiffs.forEach\<close> for paragraph \<open>i\<close>.\<close>

fun wordDiffLoop ::
  "DocumentStructure \<Rightarrow> DocumentStructure \<Rightarrow> nat \<Rightarrow> string \<Rightarrow> string \<Rightarrow> Change list \<Rightarrow>
   nat \<Rightarrow> nat \<Rightarrow> PreciseDifference list" where
  "wordDiffLoop leftDoc rightDoc i leftPara rightPara [] idx wordIndex = []"
| "wordDiffLoop leftDoc rightDoc i leftPara rightPara (part # parts) idx wordIndex =
     (if added part \<or> removed part
      then [wordDifference leftDoc rightDoc i leftPara rightPara part idx wordIndex]
      else []) @
     wordDiffLoop leftDoc rightDoc i leftPara rightPara parts (idx + 1)
       (wordIndex + length (part_value part))"

text \<open>\<open>paragraphs[i] || ''\<close>.\<close>

definition paragraphAt :: "string list \<Rightarrow> nat \<Rightarrow> string" where
  "paragraphAt ps i = (if i < length ps then ps ! i else [])"

definition detectWordDifferences ::
  "DiffLib \<Rightarrow> DocumentStructure \<Rightarrow> DocumentStructure \<Rightarrow> PreciseDifference list" where
  "detectWordDifferences lib leftDoc rightDoc =
     (let leftParagraphs = extractParagraphs leftDoc;
          rightParagraphs = extractParagraphs rightDoc;
          maxLength = max (length leftParagraphs) (length rightParagraphs)
      in concat (map (\<lambda>i.
           (let leftPara = paragraphAt leftParagraphs i;
                rightPara = paragraphAt rightParagraphs i
            in if leftPara \<noteq> rightPara
               then wordDiffLoop leftDoc rightDoc i leftPara rightPara
                      (diffWords lib leftPara rightPara) 0 0
               else [])) [0..<maxLength]))"

subsection \<open>Structural differ\<close>

definition pageCountDifference :: "DocumentStructure \<Rightarrow> DocumentStructure \<Rightarrow> PreciseDifference" where
  "pageCountDifference leftDoc rightDoc =
     \<lparr>diff_id = ''struct-page-count'',
      diff_type = TStructure,
      severity = High,
      category = CStructure,
      description = ''page count changed: '' @ show_nat (pageCount leftDoc) @ '' -> '' @
                    show_nat (pageCount rightDoc),
      leftContent = show_nat (pageCount leftDoc) @ [CHR '' '', pageUnit],
      rightContent = show_nat (pageCount rightDoc) @ [CHR '' '', pageUnit],
      leftPosition = \<lparr>page = 1, line = 1, column = 1, offset = 0, absoluteOffset = 0\<rparr>,
      rightPosition = \<lparr>page = 1, line = 1, column = 1, offset = 0, absoluteOffset = 0\<rparr>,
      contextBefore = [],
      contextAfter = [],
      similarity = 1 / 2,
      confidence = 1\<rparr>"

text \<open>The object pushed for an added or removed section title.\<close>

definition sectionDifference :: "Change \<Rightarrow> nat \<Rightarrow> PreciseDifference" where
  "sectionDifference part sectionIndex =
     \<lparr>diff_id = ''struct-section-'' @ show_nat sectionIndex,
      diff_type = (if added part then TAddition else TDeletion),
      severity = Medium,
      category = CStructure,
      description = ''section '' @ (if added part then ''added'' else ''removed'') @ '': '' @
                    part_value part,
      leftContent = (if removed part then part_value part else []),
      rightContent = (if added part then part_value part else []),
      leftPosition = \<lparr>page = 1, line = 1, column = 1, offset = 0, absoluteOffset = 0\<rparr>,
      rightPosition = \<lparr>page = 1, line = 1, column = 1, offset = 0, absoluteOffset = 0\<rparr>,
      contextBefore = [],
      contextAfter = [],
      similarity = 0,
      confidence = 9 / 10\<rparr>"

text \<open>The body of \<open>sectionDiffs.forEach\<close> with the counter \<open>sectionIndex\<close>.\<close>

fun sectionDiffLoop :: "Change list \<Rightarrow> nat \<Rightarrow> PreciseDifference list" where
  "sectionDiffLoop [] sectionIndex = []"
| "sectionDiffLoop (part # parts) sectionIndex =
     (if added part \<or> removed part
      then sectionDifference part sectionIndex # sectionDiffLoop parts (sectionIndex + 1)
      else sectionDiffLoop parts sectionIndex)"

definition detectStructuralDifferences ::
  "DiffLib \<Rightarrow> DocumentStructure \<Rightarrow> DocumentStructure \<Rightarrow> PreciseDifference list" where
  "detectStructuralDifferences lib leftDoc rightDoc =
     (if pageCount leftDoc \<noteq> pageCount rightDoc then [pageCountDifference leftDoc rightDoc]
      else []) @
     (let leftSections = map title (sections leftDoc);
          rightSections = map title (sections rightDoc)
      in sectionDiffLoop (diffLines lib (joinNewline leftSections) (joinNewline rightSections)) 0)"

subsection \<open>Difference optimizer\<close>

text \<open>\<open>array.findIndex(p)\<close>: the index of the first element that satisfies \<open>p\<close>, or \<open>-1\<close>.\<close>

fun findIndexFrom :: "('a \<Rightarrow> bool) \<Rightarrow> 'a list \<Rightarrow> int \<Rightarrow> int" where
  "findIndexFrom p [] i = - 1"
| "findIndexFrom p (x # xs) i = (if p x then i else findIndexFrom p xs (i + 1))"

definition findIndex :: "('a \<Rightarrow> bool) \<Rightarrow> 'a list \<Rightarrow> int" where
  "findIndex p xs = findIndexFrom p xs 0"

definition uniqueDifferences :: "PreciseDifference list \<Rightarrow> PreciseDifference list" where
  "uniqueDifferences ds =
     map snd (filter (\<lambda>(idx, d).
        findIndex (\<lambda>e. leftContent e = leftContent d \<and> rightContent e = rightContent d) ds = int idx)
        (enumerate 0 ds))"

text \<open>The comparator passed to \<open>sort\<close>.\<close>

definition comparePosition :: "PreciseDifference \<Rightarrow> PreciseDifference \<Rightarrow> int" where
  "comparePosition a b =
     (if page (leftPosition a) \<noteq> page (leftPosition b)
      then int (page (leftPosition a)) - int (page (leftPosition b))
      else if line (leftPosition a) \<noteq> line (leftPosition b)
      then int (line (leftPosition a)) - int (line (leftPosition b))
      else int (column (leftPosition a)) - int (column (leftPosition b)))"

text \<open>
  \<open>Array.prototype.sort\<close> with a comparator is a built-in of the language, specified to
  be stable: an element goes before another when the comparator is negative, and
  elements that compare as equal keep their order. It is modelled as an insertion sort
  that inserts from the right.
\<close>

fun insertBy :: "('a \<Rightarrow> 'a \<Rightarrow> int) \<Rightarrow> 'a \<Rightarrow> 'a list \<Rightarrow> 'a list" where
  "insertBy cmp x [] = [x]"
| "insertBy cmp x (y # ys) = (if cmp x y \<le> 0 then x # y # ys else y # insertBy cmp x ys)"

definition sortBy :: "('a \<Rightarrow> 'a \<Rightarrow> int) \<Rightarrow> 'a list \<Rightarrow> 'a list" where
  "sortBy cmp xs = foldr (insertBy cmp) xs []"

definition optimizeDifferences :: "PreciseDifference list \<Rightarrow> PreciseDifference list" where
  "optimizeDifferences ds = sortBy comparePosition (uniqueDifferences ds)"

subsection \<open>Statistics and summary\<close>

text \<open>The body of \<open>differences.forEach\<close> in \<open>calculateStatistics\<close>.\<close>

definition countDifference :: "ComparisonStatistics \<Rightarrow> PreciseDifference \<Rightarrow> ComparisonStatistics" where
  "countDifference stats d =
     (let s1 = (case diff_type d of
                  TAddition \<Rightarrow> stats\<lparr>additions := additions stats + 1\<rparr>
                | TDeletion \<Rightarrow> stats\<lparr>deletions := deletions stats + 1\<rparr>
                | TModification \<Rightarrow> stats\<lparr>modifications := modifications stats + 1\<rparr>
                | _ \<Rightarrow> stats);
          s2 = (case category d of
                  CFormat \<Rightarrow> s1\<lparr>formatChanges := formatChanges s1 + 1\<rparr>
                | CStructure \<Rightarrow> s1\<lparr>structureChanges := structureChanges s1 + 1\<rparr>
                | _ \<Rightarrow> s1);
          s3 = (case severity d of
                  Critical \<Rightarrow> s2\<lparr>critical := critical s2 + 1\<rparr>
                | High \<Rightarrow> s2\<lparr>high := high s2 + 1\<rparr>
                | Medium \<Rightarrow> s2\<lparr>medium := medium s2 + 1\<rparr>
                | Low \<Rightarrow> s2\<lparr>low := low s2 + 1\<rparr>);
          pg = page (leftPosition d)
      in s3\<lparr>pageDistribution := (pageDistribution s3)
              (pg \<mapsto> (case pageDistribution s3 pg of None \<Rightarrow> 0 | Some c \<Rightarrow> c) + 1)\<rparr>)"

definition changedChars :: "PreciseDifference list \<Rightarrow> nat" where
  "changedChars ds =
     foldl (\<lambda>sum d. sum + max (length (leftContent d)) (length (rightContent d))) 0 ds"

definition calculateStatistics ::
  "PreciseDifference list \<Rightarrow> DocumentStructure \<Rightarrow> DocumentStructure \<Rightarrow> ComparisonStatistics" where
  "calculateStatistics ds leftDoc rightDoc =
     (let stats0 = \<lparr>totalDifferences = length ds, additions = 0, deletions = 0,
                     modifications = 0, formatChanges = 0, structureChanges = 0, critical = 0,
                     high = 0, medium = 0, low = 0, pageDistribution = Map.empty,
                     overallSimilarity = Finite 0, averageConfidence = Finite 0\<rparr>;
          stats1 = foldl countDifference stats0 ds;
          totalChars = max (characterCount leftDoc) (characterCount rightDoc);
          stats2 = stats1\<lparr>overallSimilarity :=
                     js_max0 (js_div (of_nat totalChars - of_nat (changedChars ds))
                                     (of_nat totalChars))\<rparr>
      in stats2\<lparr>averageConfidence :=
                  js_or0 (js_div (foldl (\<lambda>sum d. sum + confidence d) 0 ds)
                                 (of_nat (length ds)))\<rparr>)"

text \<open>\<open>x < 0.5\<close>: false for NaN.\<close>

fun js_less :: "jsnum \<Rightarrow> rat \<Rightarrow> bool" where
  "js_less (Finite q) c = (q < c)"
| "js_less NaN c = False"
| "js_less PosInfinity c = False"
| "js_less NegInfinity c = True"

definition generateSummary ::
  "PreciseDifference list \<Rightarrow> ComparisonStatistics \<Rightarrow> ComparisonSummary" where
  "generateSummary ds stats =
     \<lparr>majorChanges =
        map description (take 5 (filter (\<lambda>d. severity d = High \<or> severity d = Critical) ds)),
      structuralChanges = map description (filter (\<lambda>d. category d = CStructure) ds),
      summary_formatChanges = map description (filter (\<lambda>d. category d = CFormat) ds),
      recommendations =
        (if js_less (overallSimilarity stats) (1 / 2)
         then [''large differences: review every change''] else []) @
        (if structureChanges stats > 0
         then [''structural changes detected: check the organisation''] else []) @
        (if critical stats > 0
         then [''critical differences need attention''] else [])\<rparr>"

subsection \<open>Entry point\<close>

definition compareDocuments ::
  "DiffLib \<Rightarrow> DocumentStructure \<Rightarrow> DocumentStructure \<Rightarrow> error + ComparisonResult" where
  "compareDocuments lib leftDoc rightDoc =
     (case detectLineDifferences lib leftDoc rightDoc of
        Inl e \<Rightarrow> Inl e
      | Inr lineDifferences \<Rightarrow>
          (let wordDifferences = detectWordDifferences lib leftDoc rightDoc;
               structuralDifferences = detectStructuralDifferences lib leftDoc rightDoc;
               optimizedDifferences =
                 optimizeDifferences (lineDifferences @ wordDifferences @ structuralDifferences);
               stats = calculateStatistics optimizedDifferences leftDoc rightDoc
           in Inr \<lparr>differences = optimizedDifferences,
                   statistics = stats,
                   summary = generateSummary optimizedDifferences stats\<rparr>))"

section \<open>The parser (AdvancedDocumentParser)\<close>

text \<open>
  The parser reads a file and builds the document. The text of the file, or the texts of
  the pages of a PDF file, are the arguments of the model.
\<close>

subsection \<open>Lines\<close>

text \<open>The body of \<open>textLines.forEach\<close> with the index of the line and \<open>currentOffset\<close>.\<close>

fun lineLoop :: "string list \<Rightarrow> nat \<Rightarrow> nat \<Rightarrow> nat \<Rightarrow> DocumentLine list" where
  "lineLoop [] idx pageNum currentOffset = []"
| "lineLoop (lineText # rest) idx pageNum currentOffset =
     \<lparr>lineNumber = idx + 1,
      line_content = lineText,
      startOffset = currentOffset,
      endOffset = currentOffset + length lineText,
      line_pageNumber = pageNum\<rparr> #
     lineLoop rest (idx + 1) pageNum (currentOffset + length lineText + 1)"

definition buildLineStructure :: "string \<Rightarrow> nat \<Rightarrow> nat \<Rightarrow> DocumentLine list" where
  "buildLineStructure cont pageNum pageOffset = lineLoop (splitNewline cont) 0 pageNum pageOffset"

subsection \<open>Position index\<close>

text \<open>The key \<open>`${position.page}-${position.line}-${position.column}`\<close>.\<close>

definition positionKey :: "DocumentPosition \<Rightarrow> string" where
  "positionKey pos = show_nat (page pos) @ ''-'' @ show_nat (line pos) @ ''-'' @ show_nat (column pos)"

text \<open>The body of the loop over the offsets \<open>i\<close> of a line.\<close>

definition indexOffset :: "DocumentPage \<Rightarrow> DocumentLine \<Rightarrow> nat \<Rightarrow> PositionIndex \<Rightarrow> PositionIndex" where
  "indexOffset pg dline i idx =
     (let position = \<lparr>page = pageNumber pg,
                       line = lineNumber dline,
                       column = i - startOffset dline + 1,
                       offset = i - startOffset dline,
                       absoluteOffset = i\<rparr>
      in idx\<lparr>offsetToPosition := (offsetToPosition idx)(i \<mapsto> position),
             positionToOffset := (positionToOffset idx)(positionKey position \<mapsto> i)\<rparr>)"

definition indexLine :: "DocumentPage \<Rightarrow> DocumentLine \<Rightarrow> PositionIndex \<Rightarrow> PositionIndex" where
  "indexLine pg dline idx =
     fold (indexOffset pg dline) [startOffset dline..<endOffset dline + 1]
       (idx\<lparr>lineIndex := (lineIndex idx)(lineNumber dline \<mapsto> dline)\<rparr>)"

definition indexPage :: "DocumentPage \<Rightarrow> PositionIndex \<Rightarrow> PositionIndex" where
  "indexPage pg idx =
     fold (indexLine pg) (lines pg) (idx\<lparr>pageIndex := (pageIndex idx)(pageNumber pg \<mapsto> pg)\<rparr>)"

definition emptyIndex :: PositionIndex where
  "emptyIndex = \<lparr>offsetToPosition = Map.empty, positionToOffset = Map.empty,
                  lineIndex = Map.empty, pageIndex = Map.empty\<rparr>"

definition buildPositionIndex :: "DocumentPage list \<Rightarrow> PositionIndex" where
  "buildPositionIndex pgs = fold indexPage pgs emptyIndex"

subsection \<open>Sections\<close>

text \<open>
  \<open>line === line.toUpperCase()\<close> holds when no code unit of the line has an upper-case
  mapping; below 256 the code units with such a mapping are \<open>a\<close> to \<open>z\<close>, 0xB5, and 0xDF to
  0xFF without 0xF7.
\<close>

definition hasUpperCase :: "char \<Rightarrow> bool" where
  "hasUpperCase c \<longleftrightarrow>
     (let n = of_char c :: nat
      in (97 \<le> n \<and> n \<le> 122) \<or> n = 181 \<or> (223 \<le> n \<and> n \<le> 255 \<and> n \<noteq> 247))"

definition isUpperCased :: "string \<Rightarrow> bool" where
  "isUpperCased s = list_all (\<lambda>c. \<not> hasUpperCase c) s"

definition isDigit :: "char \<Rightarrow> bool" where
  "isDigit c \<longleftrightarrow> c \<in> set ''0123456789''"

text \<open>\<open>/^\d+\./.test(s)\<close>.\<close>

definition numberedPrefix :: "string \<Rightarrow> bool" where
  "numberedPrefix s =
     (let ds = takeWhile isDigit s
      in ds \<noteq> [] \<and> (case drop (length ds) s of [] \<Rightarrow> False | c # _ \<Rightarrow> c = CHR ''.''))"

text \<open>The body of \<open>lines.forEach\<close> in \<open>extractSections\<close>; the result carries the next
  \<open>sectionId\<close>.\<close>

fun sectionLineLoop ::
  "DocumentPage \<Rightarrow> string list \<Rightarrow> nat \<Rightarrow> nat \<Rightarrow> DocumentSection list \<times> nat" where
  "sectionLineLoop pg [] idx sectionId = ([], sectionId)"
| "sectionLineLoop pg (dline # rest) idx sectionId =
     (if length (trim dline) > 0 \<and> (isUpperCased dline \<or> numberedPrefix (trim dline))
      then (let (secs, nextId) = sectionLineLoop pg rest (idx + 1) (sectionId + 1)
            in (\<lparr>section_id = ''section-'' @ show_nat sectionId,
                  title = trim dline,
                  level = 1,
                  startPosition = \<lparr>page = pageNumber pg, line = idx + 1, column = 1, offset = 0,
                    absoluteOffset = renderOffset pg + length (takeWhile isWhitespace dline)\<rparr>,
                  endPosition = \<lparr>page = pageNumber pg, line = idx + 1, column = length dline,
                    offset = length dline - 1, absoluteOffset = renderOffset pg + length dline\<rparr>,
                  section_content = trim dline\<rparr> # secs, nextId))
      else sectionLineLoop pg rest (idx + 1) sectionId)"

fun sectionPageLoop :: "DocumentPage list \<Rightarrow> nat \<Rightarrow> DocumentSection list" where
  "sectionPageLoop [] sectionId = []"
| "sectionPageLoop (pg # pgs) sectionId =
     (let (secs, nextId) = sectionLineLoop pg (splitNewline (page_content pg)) 0 sectionId
      in secs @ sectionPageLoop pgs nextId)"

definition extractSections :: "DocumentPage list \<Rightarrow> DocumentSection list" where
  "extractSections pgs = sectionPageLoop pgs 1"

subsection \<open>Documents\<close>

text \<open>\<open>parseTextDocument\<close> on a file with the text \<open>cont\<close>. \<open>parseWordDocument\<close> builds
  the same structure from the text that the extraction returns.\<close>

definition parseTextDocument :: "string \<Rightarrow> DocumentStructure" where
  "parseTextDocument cont =
     (let lns = buildLineStructure cont 1 0;
          pg = \<lparr>pageNumber = 1, page_content = cont, lines = lns, renderOffset = 0\<rparr>
      in \<lparr>pageCount = 1,
          lineCount = length lns,
          characterCount = length cont,
          pages = [pg],
          sections = extractSections [pg],
          positionIndex = buildPositionIndex [pg]\<rparr>)"

text \<open>The loop over the pages in \<open>parsePDFDocument\<close> with \<open>pageNum\<close> and
  \<open>currentOffset\<close>; \<open>pageTexts\<close> are the texts extracted from the pages.\<close>

fun pdfPageLoop :: "string list \<Rightarrow> nat \<Rightarrow> nat \<Rightarrow> DocumentPage list" where
  "pdfPageLoop [] pageNum currentOffset = []"
| "pdfPageLoop (pageText # rest) pageNum currentOffset =
     \<lparr>pageNumber = pageNum,
      page_content = pageText,
      lines = buildLineStructure pageText pageNum currentOffset,
      renderOffset = currentOffset\<rparr> #
     pdfPageLoop rest (pageNum + 1) (currentOffset + length pageText + 1)"

definition parsePDFDocument :: "string list \<Rightarrow> DocumentStructure" where
  "parsePDFDocument pageTexts =
     (let pgs = pdfPageLoop pageTexts 1 0
      in \<lparr>pageCount = length pageTexts,
          lineCount = sum_list (map (\<lambda>pg. length (lines pg)) pgs),
          characterCount = sum_list (map length pageTexts),
          pages = pgs,
          sections = extractSections pgs,
          positionIndex = buildPositionIndex pgs\<rparr>)"

section \<open>Specification-side notions\<close>

text \<open>The lines of a document in reading order, each with the page that holds it.\<close>

definition documentLines :: "DocumentStructure \<Rightarrow> (DocumentPage \<times> DocumentLine) list" where
  "documentLines doc = concat (map (\<lambda>pg. map (Pair pg) (lines pg)) (pages doc))"

text \<open>The pair of contents by which the optimizer recognises duplicates, and the triple
  of coordinates by which it sorts (triples are ordered lexicographically).\<close>

definition contentKey :: "PreciseDifference \<Rightarrow> string \<times> string" where
  "contentKey d = (leftContent d, rightContent d)"

definition positionKey3 :: "PreciseDifference \<Rightarrow> nat \<times> nat \<times> nat" where
  "positionKey3 d = (page (leftPosition d), line (leftPosition d), column (leftPosition d))"

text \<open>Keeping the first difference of every pair of contents: \<open>seen\<close> holds the pairs of
  the differences already passed.\<close>

fun keepFirst :: "(string \<times> string) list \<Rightarrow> PreciseDifference list \<Rightarrow> PreciseDifference list" where
  "keepFirst seen [] = []"
| "keepFirst seen (d # ds) =
     (if contentKey d \<in> set seen then keepFirst seen ds
      else d # keepFirst (seen @ [contentKey d]) ds)"

text \<open>Four differences used in the examples: the third has the contents of the first, and
  the second and the fourth have the same coordinates.\<close>

definition exampleDifference ::
  "string \<Rightarrow> string \<Rightarrow> string \<Rightarrow> nat \<Rightarrow> nat \<Rightarrow> nat \<Rightarrow> PreciseDifference" where
  "exampleDifference ident l r pg li col =
     \<lparr>diff_id = ident, diff_type = TDeletion, severity = Low, category = CText,
      description = [], leftContent = l, rightContent = r,
      leftPosition = \<lparr>page = pg, line = li, column = col, offset = 0, absoluteOffset = 0\<rparr>,
      rightPosition = \<lparr>page = pg, line = li, column = col, offset = 0, absoluteOffset = 0\<rparr>,
      contextBefore = [], contextAfter = [], similarity = 0, confidence = 1\<rparr>"

definition exampleDifferences :: "PreciseDifference list" where
  "exampleDifferences =
     [exampleDifference ''d1'' ''x'' [] 2 1 1,
      exampleDifference ''d2'' ''y'' [] 1 3 1,
      exampleDifference ''d3'' ''x'' [] 1 1 1,
      exampleDifference ''d4'' ''z'' [] 1 3 1]"

text \<open>A score lies in the closed unit interval.\<close>

definition inUnit :: "rat \<Rightarrow> bool" where
  "inUnit q \<longleftrightarrow> 0 \<le> q \<and> q \<le> 1"

text \<open>Every entry of a part of a matrix row is at most the larger of the row index \<open>i\<close>
  and its column index; \<open>j\<close> is the column of the first entry.\<close>

fun rowBound :: "nat \<Rightarrow> nat \<Rightarrow> nat list \<Rightarrow> bool" where
  "rowBound i j [] = True"
| "rowBound i j (v # vs) = (v \<le> max i j \<and> rowBound i (Suc j) vs)"








section \<open>Position queries by line index\<close>

lemma findPositionLoop_char:
  "currentLine \<le> lineIdx \<Longrightarrow>
   findPositionLoop pgs currentLine lineIdx =
     (let ls = concat (map (\<lambda>pg. map (Pair pg) (lines pg)) pgs)
      in if lineIdx - currentLine < length ls
         then \<lparr>page = pageNumber (fst (ls ! (lineIdx - currentLine))),
               line = lineNumber (snd (ls ! (lineIdx - currentLine))),
               column = 1, offset = 0,
               absoluteOffset = startOffset (snd (ls ! (lineIdx - currentLine)))\<rparr>
         else defaultPosition)"
proof (induction pgs arbitrary: currentLine)
  case Nil
  then show ?case by simp
next
  case (Cons pg pgs)
  show ?case
  proof (cases "currentLine + length (lines pg) > lineIdx")
    case True
    with Cons.prems have "lineIdx - currentLine < length (lines pg)" by arith
    with True show ?thesis
      by (simp add: Let_def nth_append)
  next
    case False
    then have le: "currentLine + length (lines pg) \<le> lineIdx" by simp
    have eq: "lineIdx - currentLine - length (lines pg) = lineIdx - (currentLine + length (lines pg))"
      by simp
    have nlt: "\<not> lineIdx - currentLine < length (lines pg)"
      using le Cons.prems by arith
    from False nlt Cons.IH [OF le] show ?thesis
      by (simp add: Let_def nth_append eq)
  qed
qed

text \<open>
  Claim C3, as the code has it: a query by line index never fails. Within the lines of the
  document it returns the page number, line number and start offset of the indexed line,
  at column 1; at or beyond the number of lines it returns the default position (page 1,
  line 1, column 1, offset 0, absolute offset 0).
\<close>

theorem findPositionByLineIndex_default:
  "findPositionByLineIndex doc lineIdx =
     (if lineIdx < length (documentLines doc)
      then \<lparr>page = pageNumber (fst (documentLines doc ! lineIdx)),
            line = lineNumber (snd (documentLines doc ! lineIdx)),
            column = 1, offset = 0,
            absoluteOffset = startOffset (snd (documentLines doc ! lineIdx))\<rparr>
      else \<lparr>page = 1, line = 1, column = 1, offset = 0, absoluteOffset = 0\<rparr>)"
  using findPositionLoop_char [of 0 lineIdx "pages doc"]
  by (simp add: findPositionByLineIndex_def documentLines_def Let_def defaultPosition_def)

theorem findPositionByLineIndex_default_witness:
  "findPositionByLineIndex (parseTextDocument (''A'' @ [newline] @ ''B'')) 1 =
     \<lparr>page = 1, line = 2, column = 1, offset = 0, absoluteOffset = 2\<rparr>"
  using findPositionByLineIndex_default [of "parseTextDocument (''A'' @ [newline] @ ''B'')" 1]
  by (simp add: documentLines_def parseTextDocument_def buildLineStructure_def Let_def newline_def)

text \<open>
  Claim C3 as stated fails: a text document with the single line \<open>A\<close> has one line, and
  the query for line index 7 returns the default position instead of an error.
\<close>

theorem findPositionByLineIndex_out_of_range:
  "lineCount (parseTextDocument ''A'') = 1 \<and>
   findPositionByLineIndex (parseTextDocument ''A'') 7 =
     \<lparr>page = 1, line = 1, column = 1, offset = 0, absoluteOffset = 0\<rparr>"
  by (simp add: parseTextDocument_def buildLineStructure_def findPositionByLineIndex_def
      Let_def newline_def defaultPosition_def)

section \<open>What the differs emit\<close>

lemma lineDiffLoop_elem:
  "lineDiffLoop leftDoc rightDoc parts li ri di acc = Inr ds \<Longrightarrow> d \<in> set ds \<Longrightarrow>
   d \<in> set acc \<or> (\<exists>part k n. d = lineAddition rightDoc part k n) \<or>
   (\<exists>part k n. d = lineDeletion leftDoc part k n)"
proof (induction parts arbitrary: li ri di acc)
  case Nil
  then show ?case by simp
next
  case (Cons part parts)
  show ?case
  proof (cases "added part")
    case True
    with Cons.prems(1)
    have "lineDiffLoop leftDoc rightDoc parts li (ri + countNewlines (part_value part)) (di + 1)
            (acc @ [lineAddition rightDoc part ri di]) = Inr ds"
      by simp
    from Cons.IH [OF this Cons.prems(2)] show ?thesis by (elim disjE) (simp, blast, blast, blast)
  next
    case False
    show ?thesis
    proof (cases "removed part")
      case True
      with False Cons.prems(1)
      have "lineDiffLoop leftDoc rightDoc parts (li + countNewlines (part_value part)) ri (di + 1)
              (acc @ [lineDeletion leftDoc part li di]) = Inr ds"
        by simp
      from Cons.IH [OF this Cons.prems(2)] show ?thesis by (elim disjE) (simp, blast, blast, blast)
    next
      case unchanged: False
      with False Cons.prems(1) show ?thesis by simp
    qed
  qed
qed

lemma detectLineDifferences_elem:
  assumes "detectLineDifferences lib leftDoc rightDoc = Inr ds" and "d \<in> set ds"
  shows "(\<exists>part k n. d = lineAddition rightDoc part k n) \<or>
         (\<exists>part k n. d = lineDeletion leftDoc part k n)"
  using lineDiffLoop_elem [OF assms(1) [unfolded detectLineDifferences_def] assms(2)]
  by simp

lemma wordDiffLoop_elem:
  "d \<in> set (wordDiffLoop leftDoc rightDoc i lp rp parts idx wi) \<Longrightarrow>
   \<exists>part n w. (added part \<or> removed part) \<and>
     d = wordDifference leftDoc rightDoc i lp rp part n w"
proof (induction parts arbitrary: idx wi)
  case Nil
  then show ?case by simp
next
  case (Cons part parts)
  from Cons.prems
  have "(added part \<or> removed part) \<and> d = wordDifference leftDoc rightDoc i lp rp part idx wi \<or>
        d \<in> set (wordDiffLoop leftDoc rightDoc i lp rp parts (idx + 1)
                   (wi + length (part_value part)))"
    by (auto split: if_splits)
  with Cons.IH show ?case by blast
qed

lemma detectWordDifferences_elem:
  assumes "d \<in> set (detectWordDifferences lib leftDoc rightDoc)"
  shows "\<exists>i lp rp part n w. (added part \<or> removed part) \<and>
           d = wordDifference leftDoc rightDoc i lp rp part n w"
proof -
  from assms obtain i lp rp parts
    where "d \<in> set (wordDiffLoop leftDoc rightDoc i lp rp parts 0 0)"
    by (auto simp: detectWordDifferences_def Let_def split: if_splits)
  from wordDiffLoop_elem [OF this] show ?thesis by blast
qed

lemma sectionDiffLoop_elem:
  "d \<in> set (sectionDiffLoop parts k) \<Longrightarrow> \<exists>part n. d = sectionDifference part n"
  by (induction parts arbitrary: k) (auto split: if_splits)

lemma detectStructuralDifferences_elem:
  assumes "d \<in> set (detectStructuralDifferences lib leftDoc rightDoc)"
  shows "d = pageCountDifference leftDoc rightDoc \<or> (\<exists>part n. d = sectionDifference part n)"
  using assms
  by (auto simp: detectStructuralDifferences_def Let_def dest: sectionDiffLoop_elem
      split: if_splits)

section \<open>Structural differ\<close>

lemma filter_sectionDiffLoop_high:
  "filter (\<lambda>d. category d = CStructure \<and> severity d = High) (sectionDiffLoop parts k) = []"
  by (auto simp: filter_empty_conv sectionDifference_def dest!: sectionDiffLoop_elem)

text \<open>
  Claim C5: among the differences of the structural differ, those of category
  \<open>structure\<close> and severity \<open>high\<close> are exactly one when the page counts differ, and none
  when they are equal. That one has confidence 1, describes the old and the new page
  count, and is positioned at page 1, line 1.
\<close>

theorem detectStructuralDifferences_page_count:
  "filter (\<lambda>d. category d = CStructure \<and> severity d = High)
     (detectStructuralDifferences lib leftDoc rightDoc) =
   (if pageCount leftDoc \<noteq> pageCount rightDoc
    then [\<lparr>diff_id = ''struct-page-count'',
           diff_type = TStructure,
           severity = High,
           category = CStructure,
           description = ''page count changed: '' @ show_nat (pageCount leftDoc) @ '' -> '' @
                         show_nat (pageCount rightDoc),
           leftContent = show_nat (pageCount leftDoc) @ [CHR '' '', pageUnit],
           rightContent = show_nat (pageCount rightDoc) @ [CHR '' '', pageUnit],
           leftPosition = \<lparr>page = 1, line = 1, column = 1, offset = 0, absoluteOffset = 0\<rparr>,
           rightPosition = \<lparr>page = 1, line = 1, column = 1, offset = 0, absoluteOffset = 0\<rparr>,
           contextBefore = [],
           contextAfter = [],
           similarity = 1 / 2,
           confidence = 1\<rparr>]
    else [])"
  by (simp add: detectStructuralDifferences_def filter_sectionDiffLoop_high
      pageCountDifference_def Let_def)

lemma show_nat_digit: "n < 10 \<Longrightarrow> show_nat n = [digitChar n]"
  by (simp add: show_nat.simps)

theorem detectStructuralDifferences_page_count_witness:
  "filter (\<lambda>d. category d = CStructure \<and> severity d = High)
     (detectStructuralDifferences wholeTextLib
        (parsePDFDocument [''a'', ''b'']) (parsePDFDocument [''a'', ''b'', ''c''])) =
   [\<lparr>diff_id = ''struct-page-count'',
           diff_type = TStructure,
           severity = High,
           category = CStructure,
           description = ''page count changed: 2 -> 3'',
           leftContent = ''2 '' @ [pageUnit],
           rightContent = ''3 '' @ [pageUnit],
           leftPosition = \<lparr>page = 1, line = 1, column = 1, offset = 0, absoluteOffset = 0\<rparr>,
           rightPosition = \<lparr>page = 1, line = 1, column = 1, offset = 0, absoluteOffset = 0\<rparr>,
           contextBefore = [],
           contextAfter = [],
           similarity = 1 / 2,
           confidence = 1\<rparr>]"
proof -
  have l: "pageCount (parsePDFDocument [''a'', ''b'']) = 2"
    by (simp add: parsePDFDocument_def Let_def)
  have r: "pageCount (parsePDFDocument [''a'', ''b'', ''c'']) = 3"
    by (simp add: parsePDFDocument_def Let_def)
  show ?thesis
    by (simp add: detectStructuralDifferences_page_count l r show_nat_digit digitChar_def)
qed

section \<open>Word-level differ\<close>

text \<open>
  Claim C10: every difference of the word-level differ has severity \<open>medium\<close> when its
  token run (the longer of its two contents, the other one being empty) is longer than
  20 characters, and \<open>low\<close> otherwise; it is never \<open>high\<close> or \<open>critical\<close>.
\<close>

theorem detectWordDifferences_severity:
  "\<forall>d \<in> set (detectWordDifferences lib leftDoc rightDoc).
     severity d = (if 20 < max (length (leftContent d)) (length (rightContent d)) then Medium else Low) \<and>
     severity d \<noteq> High \<and> severity d \<noteq> Critical"
proof
  fix d assume "d \<in> set (detectWordDifferences lib leftDoc rightDoc)"
  then obtain i lp rp part n w where part: "added part \<or> removed part"
    and d: "d = wordDifference leftDoc rightDoc i lp rp part n w"
    using detectWordDifferences_elem by blast
  from part have "max (length (leftContent d)) (length (rightContent d)) = length (part_value part)"
    by (auto simp: d wordDifference_def Let_def)
  moreover have "severity d = calculateWordSeverity (part_value part)"
    by (simp add: d wordDifference_def Let_def)
  ultimately show "severity d =
      (if 20 < max (length (leftContent d)) (length (rightContent d)) then Medium else Low) \<and>
      severity d \<noteq> High \<and> severity d \<noteq> Critical"
    by (simp add: calculateWordSeverity_def)
qed

theorem detectWordDifferences_severity_witness:
  "map leftContent
     (detectWordDifferences wholeTextLib (parseTextDocument ''A'') (parseTextDocument ''B'')) =
     [''A'', []] \<and>
   list_all (\<lambda>d. severity d = Low \<and> severity d \<noteq> High \<and> severity d \<noteq> Critical)
     (detectWordDifferences wholeTextLib (parseTextDocument ''A'') (parseTextDocument ''B''))"
proof -
  have "map (\<lambda>d. (leftContent d, rightContent d))
     (detectWordDifferences wholeTextLib (parseTextDocument ''A'') (parseTextDocument ''B'')) =
     [(''A'', []), ([], ''B'')]"
    by code_simp
  then have "map leftContent
       (detectWordDifferences wholeTextLib (parseTextDocument ''A'') (parseTextDocument ''B'')) =
       [''A'', []]"
    and "\<forall>d \<in> set (detectWordDifferences wholeTextLib (parseTextDocument ''A'')
            (parseTextDocument ''B'')).
          max (length (leftContent d)) (length (rightContent d)) \<le> 20"
    by auto
  with detectWordDifferences_severity [of wholeTextLib "parseTextDocument ''A''"
      "parseTextDocument ''B''"]
  show ?thesis by (auto simp: list_all_iff)
qed

section \<open>Difference optimizer\<close>

subsection \<open>Deduplication\<close>

lemma findIndexFrom_skip:
  "\<forall>y \<in> set pre. \<not> p y \<Longrightarrow>
   findIndexFrom p (pre @ xs) i = findIndexFrom p xs (i + int (length pre))"
  by (induction pre arbitrary: i) (auto simp: algebra_simps)

lemma findIndexFrom_hit:
  "\<exists>y \<in> set pre. p y \<Longrightarrow> findIndexFrom p (pre @ xs) i < i + int (length pre)"
proof (induction pre arbitrary: i)
  case Nil
  then show ?case by simp
next
  case (Cons a pre)
  show ?case
  proof (cases "p a")
    case True
    then show ?thesis by simp
  next
    case False
    with Cons.prems have "\<exists>y \<in> set pre. p y" by simp
    from Cons.IH [OF this, of "i + 1"] False show ?thesis by simp
  qed
qed

lemma findIndex_first:
  "p d \<Longrightarrow> (findIndex p (pre @ d # rest) = int (length pre)) = (\<forall>y \<in> set pre. \<not> p y)"
proof (cases "\<forall>y \<in> set pre. \<not> p y")
  case True
  assume "p d"
  with True show ?thesis
    by (simp add: findIndex_def findIndexFrom_skip)
next
  case False
  then have "\<exists>y \<in> set pre. p y" by simp
  from findIndexFrom_hit [OF this, of "d # rest" 0] False show ?thesis
    by (simp add: findIndex_def)
qed

lemma keepFirst_cong: "set s1 = set s2 \<Longrightarrow> keepFirst s1 ds = keepFirst s2 ds"
proof (induction ds arbitrary: s1 s2)
  case Nil
  then show ?case by simp
next
  case (Cons d ds)
  from Cons.prems have "set (s1 @ [contentKey d]) = set (s2 @ [contentKey d])" by simp
  from Cons.IH [OF this] Cons.IH [OF Cons.prems] Cons.prems show ?case by simp
qed

text \<open>The filter of the optimizer, started after a prefix \<open>pre\<close> of the array, keeps the
  first difference of every pair of contents that \<open>pre\<close> does not hold.\<close>

lemma uniqueDifferences_gen:
  "map snd (filter (\<lambda>(idx, d).
      findIndex (\<lambda>e. leftContent e = leftContent d \<and> rightContent e = rightContent d)
        (pre @ xs) = int idx)
      (enumerate (length pre) xs)) = keepFirst (map contentKey pre) xs"
proof (induction xs arbitrary: pre)
  case Nil
  then show ?case by simp
next
  case (Cons d xs)
  have first: "(findIndex (\<lambda>e. leftContent e = leftContent d \<and> rightContent e = rightContent d)
                  (pre @ d # xs) = int (length pre)) = (contentKey d \<notin> set (map contentKey pre))"
    by (subst findIndex_first) (auto simp: contentKey_def image_iff)
  have seen: "contentKey d \<in> set (map contentKey pre) \<Longrightarrow>
      keepFirst (map contentKey pre @ [contentKey d]) xs = keepFirst (map contentKey pre) xs"
    by (rule keepFirst_cong) auto
  from Cons.IH [of "pre @ [d]"] first seen show ?case
    by simp
qed

lemma uniqueDifferences_keepFirst: "uniqueDifferences ds = keepFirst [] ds"
  using uniqueDifferences_gen [of "[]" ds] by (simp add: uniqueDifferences_def)

lemma keepFirst_keys:
  "set (map contentKey (keepFirst seen ds)) = set (map contentKey ds) - set seen"
  by (induction ds arbitrary: seen) auto

lemma keepFirst_distinct: "distinct (map contentKey (keepFirst seen ds))"
  by (induction ds arbitrary: seen) (auto simp: keepFirst_keys simp del: set_map)

lemma keepFirst_subset: "set (keepFirst seen ds) \<subseteq> set ds"
  by (induction ds arbitrary: seen) auto

lemma keepFirst_find:
  "d \<in> set (keepFirst seen ds) \<Longrightarrow> find (\<lambda>e. contentKey e = contentKey d) ds = Some d"
proof (induction ds arbitrary: seen)
  case Nil
  then show ?case by simp
next
  case (Cons x ds)
  show ?case
  proof (cases "contentKey x \<in> set seen")
    case True
    with Cons.prems have mem: "d \<in> set (keepFirst seen ds)" by simp
    then have "contentKey d \<in> set (map contentKey (keepFirst seen ds))" by simp
    then have "contentKey d \<notin> set seen" unfolding keepFirst_keys by simp
    with True have "contentKey x \<noteq> contentKey d" by auto
    with Cons.IH [OF mem] show ?thesis by simp
  next
    case False
    with Cons.prems have "d = x \<or> d \<in> set (keepFirst (seen @ [contentKey x]) ds)" by simp
    then show ?thesis
    proof
      assume "d = x"
      then show ?thesis by simp
    next
      assume mem: "d \<in> set (keepFirst (seen @ [contentKey x]) ds)"
      then have "contentKey d \<in> set (map contentKey (keepFirst (seen @ [contentKey x]) ds))"
        by simp
      then have "contentKey d \<notin> set (seen @ [contentKey x])" unfolding keepFirst_keys by simp
      then have "contentKey x \<noteq> contentKey d" by auto
      with Cons.IH [OF mem] show ?thesis by simp
    qed
  qed
qed

subsection \<open>The sort\<close>

lemma set_insertBy: "set (insertBy cmp x xs) = insert x (set xs)"
  by (induction xs) auto

lemma set_sortBy: "set (sortBy cmp xs) = set xs"
  by (induction xs) (auto simp: sortBy_def set_insertBy)

lemma distinct_map_insertBy:
  "distinct (map f (insertBy cmp x xs)) = (f x \<notin> f ` set xs \<and> distinct (map f xs))"
  by (induction xs) (auto simp: set_insertBy)

lemma distinct_map_sortBy: "distinct (map f (sortBy cmp xs)) = distinct (map f xs)"
  by (induction xs) (auto simp: sortBy_def distinct_map_insertBy set_sortBy [unfolded sortBy_def])

lemma set_optimizeDifferences: "set (optimizeDifferences ds) \<subseteq> set ds"
  using keepFirst_subset [of "[]" ds]
  by (simp add: optimizeDifferences_def set_sortBy uniqueDifferences_keepFirst)

text \<open>The comparator is not positive exactly when the coordinates of the first argument
  are not after those of the second in the lexicographic order.\<close>

lemma comparePosition_le: "(comparePosition a b \<le> 0) = (positionKey3 a \<le> positionKey3 b)"
  by (auto simp: comparePosition_def positionKey3_def)

lemma sorted_insertBy:
  assumes "\<And>a b. (cmp a b \<le> 0) = (f a \<le> f b)"
  shows "sorted (map f xs) \<Longrightarrow> sorted (map f (insertBy cmp x xs))"
  by (induction xs) (auto simp: assms set_insertBy)

lemma sorted_sortBy:
  assumes "\<And>a b. (cmp a b \<le> 0) = (f a \<le> f b)"
  shows "sorted (map f (sortBy cmp xs))"
  by (induction xs) (auto simp: sortBy_def sorted_insertBy [OF assms])

lemma filter_insertBy_other:
  "\<not> P x \<Longrightarrow> filter P (insertBy cmp x xs) = filter P xs"
  by (induction xs) auto

lemma filter_insertBy_same:
  assumes "\<And>a b. (cmp a b \<le> 0) = (f a \<le> f b)"
  shows "sorted (map f xs) \<Longrightarrow>
    filter (\<lambda>y. f y = f x) (insertBy cmp x xs) = x # filter (\<lambda>y. f y = f x) xs"
  by (induction xs) (auto simp: assms)

lemma sortBy_stable:
  fixes f :: "'a \<Rightarrow> 'b::linorder"
  assumes "\<And>a b. (cmp a b \<le> 0) = (f a \<le> f b)"
  shows "filter (\<lambda>y. f y = k) (sortBy cmp xs) = filter (\<lambda>y. f y = k) xs"
proof (induction xs)
  case Nil
  then show ?case by (simp add: sortBy_def)
next
  case (Cons x xs)
  have step: "sortBy cmp (x # xs) = insertBy cmp x (sortBy cmp xs)"
    by (simp add: sortBy_def)
  show ?case
  proof (cases "f x = k")
    case True
    have srt: "sorted (map f (sortBy cmp xs))"
      by (rule sorted_sortBy [OF assms])
    have "filter (\<lambda>y. f y = f x) (insertBy cmp x (sortBy cmp xs)) =
          x # filter (\<lambda>y. f y = f x) (sortBy cmp xs)"
      using srt by (rule filter_insertBy_same [OF assms])
    with True Cons.IH show ?thesis by (simp add: step)
  next
    case False
    with Cons.IH show ?thesis by (simp add: step filter_insertBy_other)
  qed
qed

lemma optimizeDifferences_example:
  "map diff_id (optimizeDifferences exampleDifferences) = [''d2'', ''d4'', ''d1'']"
  by code_simp

text \<open>
  Claim C6: no two differences of the optimizer's output have the same pair of left and
  right content; every pair of contents of the input is the pair of a difference of the
  output; and every difference of the output is the first difference of the input with
  its pair of contents. The positions play no part.
\<close>

theorem optimizeDifferences_dedup:
  "distinct (map contentKey (optimizeDifferences ds)) \<and>
   set (map contentKey (optimizeDifferences ds)) = set (map contentKey ds) \<and>
   (\<forall>d \<in> set (optimizeDifferences ds). find (\<lambda>e. contentKey e = contentKey d) ds = Some d)"
proof -
  have "distinct (map contentKey (optimizeDifferences ds))"
    by (simp add: optimizeDifferences_def distinct_map_sortBy uniqueDifferences_keepFirst
        keepFirst_distinct)
  moreover have "set (map contentKey (optimizeDifferences ds)) = set (map contentKey ds)"
    using keepFirst_keys [of "[]" ds]
    by (simp add: optimizeDifferences_def set_sortBy uniqueDifferences_keepFirst)
  moreover have "\<forall>d \<in> set (optimizeDifferences ds).
      find (\<lambda>e. contentKey e = contentKey d) ds = Some d"
    by (simp add: optimizeDifferences_def set_sortBy uniqueDifferences_keepFirst keepFirst_find)
  ultimately show ?thesis by blast
qed

theorem optimizeDifferences_dedup_witness:
  "map diff_id (optimizeDifferences exampleDifferences) = [''d2'', ''d4'', ''d1''] \<and>
   distinct (map contentKey (optimizeDifferences exampleDifferences)) \<and>
   set (map contentKey (optimizeDifferences exampleDifferences)) =
     set (map contentKey exampleDifferences) \<and>
   list_all (\<lambda>d. find (\<lambda>e. contentKey e = contentKey d) exampleDifferences = Some d)
     (optimizeDifferences exampleDifferences)"
  using optimizeDifferences_dedup [of exampleDifferences] optimizeDifferences_example
  by (simp add: list_all_iff)

text \<open>
  Claim C7: the output of the optimizer is sorted by page, then line, then column of the
  left position, and the differences with one triple of coordinates stand in the order
  they have in the deduplicated input.
\<close>

theorem optimizeDifferences_sorted_stable:
  "sorted (map positionKey3 (optimizeDifferences ds)) \<and>
   (\<forall>k. filter (\<lambda>d. positionKey3 d = k) (optimizeDifferences ds) =
        filter (\<lambda>d. positionKey3 d = k) (uniqueDifferences ds))"
  by (simp add: optimizeDifferences_def sorted_sortBy [OF comparePosition_le]
      sortBy_stable [OF comparePosition_le])

theorem optimizeDifferences_sorted_stable_witness:
  "map positionKey3 (optimizeDifferences exampleDifferences) = [(1, 3, 1), (1, 3, 1), (2, 1, 1)] \<and>
   sorted (map positionKey3 (optimizeDifferences exampleDifferences)) \<and>
   map diff_id (filter (\<lambda>d. positionKey3 d = (1, 3, 1)) (optimizeDifferences exampleDifferences)) =
     [''d2'', ''d4'']"
proof -
  have keys: "map positionKey3 (optimizeDifferences exampleDifferences) =
      [(1, 3, 1), (1, 3, 1), (2, 1, 1)]"
    by code_simp
  have uniq: "map diff_id (filter (\<lambda>d. positionKey3 d = (1, 3, 1))
      (uniqueDifferences exampleDifferences)) = [''d2'', ''d4'']"
    by code_simp
  from optimizeDifferences_sorted_stable [of exampleDifferences] keys uniq
  show ?thesis by simp
qed

section \<open>Positions of the emitted differences\<close>

lemma compareDocuments_Inr:
  assumes "compareDocuments lib leftDoc rightDoc = Inr res"
  obtains lds where "detectLineDifferences lib leftDoc rightDoc = Inr lds"
    and "differences res = optimizeDifferences
           (lds @ detectWordDifferences lib leftDoc rightDoc @
            detectStructuralDifferences lib leftDoc rightDoc)"
    and "statistics res = calculateStatistics (differences res) leftDoc rightDoc"
  using assms by (auto simp: compareDocuments_def Let_def split: sum.splits)

text \<open>A difference of a result comes from one of the three differs.\<close>

lemma compareDocuments_elem:
  assumes "compareDocuments lib leftDoc rightDoc = Inr res" and "d \<in> set (differences res)"
  shows "(\<exists>part k n. d = lineAddition rightDoc part k n) \<or>
         (\<exists>part k n. d = lineDeletion leftDoc part k n) \<or>
         (\<exists>i lp rp part n w. d = wordDifference leftDoc rightDoc i lp rp part n w) \<or>
         d = pageCountDifference leftDoc rightDoc \<or>
         (\<exists>part n. d = sectionDifference part n)"
proof -
  from assms(1) obtain lds where lds: "detectLineDifferences lib leftDoc rightDoc = Inr lds"
    and diffs: "differences res = optimizeDifferences
           (lds @ detectWordDifferences lib leftDoc rightDoc @
            detectStructuralDifferences lib leftDoc rightDoc)"
    by (rule compareDocuments_Inr)
  from assms(2) diffs set_optimizeDifferences
  have "d \<in> set lds \<or> d \<in> set (detectWordDifferences lib leftDoc rightDoc) \<or>
        d \<in> set (detectStructuralDifferences lib leftDoc rightDoc)"
    by fastforce
  then show ?thesis
  proof (elim disjE)
    assume "d \<in> set lds"
    from detectLineDifferences_elem [OF lds this] show ?thesis by blast
  next
    assume "d \<in> set (detectWordDifferences lib leftDoc rightDoc)"
    from detectWordDifferences_elem [OF this] show ?thesis by blast
  next
    assume "d \<in> set (detectStructuralDifferences lib leftDoc rightDoc)"
    from detectStructuralDifferences_elem [OF this] show ?thesis by blast
  qed
qed

lemma same_position_emitted:
  "leftPosition (lineAddition rightDoc part k n) = rightPosition (lineAddition rightDoc part k n)"
  "leftPosition (lineDeletion leftDoc part k n) = rightPosition (lineDeletion leftDoc part k n)"
  "leftPosition (wordDifference leftDoc rightDoc i lp rp part n w) =
   rightPosition (wordDifference leftDoc rightDoc i lp rp part n w)"
  "leftPosition (pageCountDifference leftDoc rightDoc) =
   rightPosition (pageCountDifference leftDoc rightDoc)"
  "leftPosition (sectionDifference part n) = rightPosition (sectionDifference part n)"
  by (simp_all add: lineAddition_def lineDeletion_def wordDifference_def
      pageCountDifference_def sectionDifference_def Let_def)

text \<open>
  Claim C9: every difference the engine emits has one position for both sides. A
  line-level difference is an addition at a position of the right document or a deletion
  at a position of the left document; a structural difference stands at page 1, line 1,
  column 1, offset 0, absolute offset 0.
\<close>

theorem differences_share_position:
  "(\<forall>ds. detectLineDifferences lib leftDoc rightDoc = Inr ds \<longrightarrow>
      (\<forall>d \<in> set ds. leftPosition d = rightPosition d \<and>
         (diff_type d = TAddition \<and> (\<exists>k. rightPosition d = findPositionByLineIndex rightDoc k) \<or>
          diff_type d = TDeletion \<and> (\<exists>k. leftPosition d = findPositionByLineIndex leftDoc k)))) \<and>
   (\<forall>d \<in> set (detectWordDifferences lib leftDoc rightDoc). leftPosition d = rightPosition d) \<and>
   (\<forall>d \<in> set (detectStructuralDifferences lib leftDoc rightDoc).
      leftPosition d = \<lparr>page = 1, line = 1, column = 1, offset = 0, absoluteOffset = 0\<rparr> \<and>
      rightPosition d = \<lparr>page = 1, line = 1, column = 1, offset = 0, absoluteOffset = 0\<rparr>) \<and>
   (\<forall>res. compareDocuments lib leftDoc rightDoc = Inr res \<longrightarrow>
      (\<forall>d \<in> set (differences res). leftPosition d = rightPosition d))"
proof (intro conjI allI impI ballI)
  fix ds d
  assume "detectLineDifferences lib leftDoc rightDoc = Inr ds" and "d \<in> set ds"
  then have cases: "(\<exists>part k n. d = lineAddition rightDoc part k n) \<or>
      (\<exists>part k n. d = lineDeletion leftDoc part k n)"
    by (rule detectLineDifferences_elem)
  then show "leftPosition d = rightPosition d"
    by (auto simp: same_position_emitted)
  from cases
  show "diff_type d = TAddition \<and> (\<exists>k. rightPosition d = findPositionByLineIndex rightDoc k) \<or>
        diff_type d = TDeletion \<and> (\<exists>k. leftPosition d = findPositionByLineIndex leftDoc k)"
  proof
    assume "\<exists>part k n. d = lineAddition rightDoc part k n"
    then obtain part k n where "d = lineAddition rightDoc part k n" by blast
    then have "diff_type d = TAddition \<and> rightPosition d = findPositionByLineIndex rightDoc k"
      by (simp add: lineAddition_def Let_def)
    then show ?thesis by blast
  next
    assume "\<exists>part k n. d = lineDeletion leftDoc part k n"
    then obtain part k n where "d = lineDeletion leftDoc part k n" by blast
    then have "diff_type d = TDeletion \<and> leftPosition d = findPositionByLineIndex leftDoc k"
      by (simp add: lineDeletion_def Let_def)
    then show ?thesis by blast
  qed
next
  fix d assume "d \<in> set (detectWordDifferences lib leftDoc rightDoc)"
  from detectWordDifferences_elem [OF this] show "leftPosition d = rightPosition d"
    by (auto simp: same_position_emitted)
next
  fix d assume "d \<in> set (detectStructuralDifferences lib leftDoc rightDoc)"
  from detectStructuralDifferences_elem [OF this]
  show "leftPosition d = \<lparr>page = 1, line = 1, column = 1, offset = 0, absoluteOffset = 0\<rparr>"
    and "rightPosition d = \<lparr>page = 1, line = 1, column = 1, offset = 0, absoluteOffset = 0\<rparr>"
    by (auto simp: pageCountDifference_def sectionDifference_def)
next
  fix res d
  assume "compareDocuments lib leftDoc rightDoc = Inr res" and "d \<in> set (differences res)"
  from compareDocuments_elem [OF this] show "leftPosition d = rightPosition d"
    by (auto simp: same_position_emitted)
qed

theorem differences_share_position_witness:
  "(case compareDocuments wholeTextLib (parseTextDocument ''A'') (parseTextDocument ''B'') of
      Inl e \<Rightarrow> False
    | Inr res \<Rightarrow> map diff_id (differences res) = [''line-del-0'', ''line-add-1'']
        \<and> list_all (\<lambda>d. leftPosition d = rightPosition d) (differences res)) \<and>
   map diff_id (detectWordDifferences wholeTextLib (parseTextDocument ''A'')
     (parseTextDocument ''B'')) = [''word-del-0-0'', ''word-add-0-1''] \<and>
   list_all (\<lambda>d. leftPosition d = rightPosition d)
     (detectWordDifferences wholeTextLib (parseTextDocument ''A'') (parseTextDocument ''B'')) \<and>
   map diff_id (detectStructuralDifferences wholeTextLib (parseTextDocument ''A'')
     (parseTextDocument ''B'')) = [''struct-section-0'', ''struct-section-1''] \<and>
   list_all (\<lambda>d. leftPosition d = \<lparr>page = 1, line = 1, column = 1, offset = 0, absoluteOffset = 0\<rparr>)
     (detectStructuralDifferences wholeTextLib (parseTextDocument ''A'') (parseTextDocument ''B''))"
proof -
  let ?l = "parseTextDocument ''A''" and ?r = "parseTextDocument ''B''"
  note inst = differences_share_position [of wholeTextLib ?l ?r]
  have "case compareDocuments wholeTextLib ?l ?r of
      Inl e \<Rightarrow> False
    | Inr res \<Rightarrow> map diff_id (differences res) = [''line-del-0'', ''line-add-1'']"
    by code_simp
  then obtain res where res: "compareDocuments wholeTextLib ?l ?r = Inr res"
    and ids: "map diff_id (differences res) = [''line-del-0'', ''line-add-1'']"
    by (auto split: sum.splits)
  from inst res have "\<forall>d \<in> set (differences res). leftPosition d = rightPosition d"
    by blast
  with res ids have first: "case compareDocuments wholeTextLib ?l ?r of
      Inl e \<Rightarrow> False
    | Inr res \<Rightarrow> map diff_id (differences res) = [''line-del-0'', ''line-add-1'']
        \<and> list_all (\<lambda>d. leftPosition d = rightPosition d) (differences res)"
    by (simp add: list_all_iff)
  have word: "map diff_id (detectWordDifferences wholeTextLib ?l ?r) =
      [''word-del-0-0'', ''word-add-0-1'']"
    by code_simp
  have struct: "map diff_id (detectStructuralDifferences wholeTextLib ?l ?r) =
      [''struct-section-0'', ''struct-section-1'']"
    by code_simp
  from inst have "list_all (\<lambda>d. leftPosition d = rightPosition d)
      (detectWordDifferences wholeTextLib ?l ?r)"
    by (simp add: list_all_iff)
  moreover from inst have "list_all
      (\<lambda>d. leftPosition d = \<lparr>page = 1, line = 1, column = 1, offset = 0, absoluteOffset = 0\<rparr>)
      (detectStructuralDifferences wholeTextLib ?l ?r)"
    by (simp add: list_all_iff)
  ultimately show ?thesis using first word struct by blast
qed

section \<open>The missing method\<close>

lemma lineDiffLoop_unchanged:
  "\<exists>part \<in> set parts. \<not> added part \<and> \<not> removed part \<Longrightarrow>
   lineDiffLoop leftDoc rightDoc parts li ri di acc = Inl TypeError"
proof (induction parts arbitrary: li ri di acc)
  case Nil
  then show ?case by simp
next
  case (Cons part parts)
  show ?case
  proof (cases "added part \<or> removed part")
    case True
    with Cons.prems have "\<exists>part \<in> set parts. \<not> added part \<and> \<not> removed part" by auto
    from Cons.IH [OF this] show ?thesis by simp
  next
    case False
    then show ?thesis by simp
  qed
qed

text \<open>
  Claim C1 fails on the code: whenever the line diff of a document against itself holds
  an unchanged part, the comparison raises a \<open>TypeError\<close> and returns no result.
\<close>

theorem compareDocuments_identical_raises:
  assumes "\<exists>part \<in> set (diffLines lib (extractFullContent doc) (extractFullContent doc)).
             \<not> added part \<and> \<not> removed part"
  shows "compareDocuments lib doc doc = Inl TypeError"
  using lineDiffLoop_unchanged [OF assms]
  by (simp add: compareDocuments_def detectLineDifferences_def)

theorem compareDocuments_identical_raises_witness:
  "compareDocuments wholeTextLib (parseTextDocument ''A'') (parseTextDocument ''A'') =
     Inl TypeError"
proof -
  have "list_ex (\<lambda>part. \<not> added part \<and> \<not> removed part)
     (diffLines wholeTextLib (extractFullContent (parseTextDocument ''A''))
        (extractFullContent (parseTextDocument ''A'')))"
    by code_simp
  then have "\<exists>part \<in> set (diffLines wholeTextLib (extractFullContent (parseTextDocument ''A''))
        (extractFullContent (parseTextDocument ''A''))). \<not> added part \<and> \<not> removed part"
    by (simp add: list_ex_iff)
  then show ?thesis by (rule compareDocuments_identical_raises)
qed

section \<open>Statistics\<close>

lemma overallSimilarity_calculateStatistics:
  "overallSimilarity (calculateStatistics ds leftDoc rightDoc) =
     js_max0 (js_div
       (of_nat (max (characterCount leftDoc) (characterCount rightDoc)) - of_nat (changedChars ds))
       (of_nat (max (characterCount leftDoc) (characterCount rightDoc))))"
  by (simp add: calculateStatistics_def Let_def)

lemma averageConfidence_calculateStatistics:
  "averageConfidence (calculateStatistics ds leftDoc rightDoc) =
     js_or0 (js_div (foldl (\<lambda>sum d. sum + confidence d) 0 ds) (of_nat (length ds)))"
  by (simp add: calculateStatistics_def Let_def)

lemma calculateStatistics_Nil:
  "calculateStatistics [] leftDoc rightDoc =
     \<lparr>totalDifferences = 0, additions = 0, deletions = 0, modifications = 0, formatChanges = 0,
      structureChanges = 0, critical = 0, high = 0, medium = 0, low = 0,
      pageDistribution = Map.empty,
      overallSimilarity = js_max0 (js_div
        (of_nat (max (characterCount leftDoc) (characterCount rightDoc)))
        (of_nat (max (characterCount leftDoc) (characterCount rightDoc)))),
      averageConfidence = Finite 0\<rparr>"
  by (simp add: calculateStatistics_def Let_def changedChars_def js_div_def)

lemma overallSimilarity_no_characters:
  assumes "characterCount leftDoc = 0" and "characterCount rightDoc = 0"
  shows "overallSimilarity (calculateStatistics ds leftDoc rightDoc) =
           (if changedChars ds = 0 then NaN else Finite 0)"
  using assms by (simp add: overallSimilarity_calculateStatistics js_div_def)

text \<open>
  Claim C4 fails on the code: when both character counts are zero, the overall similarity
  of a result is never 1. It is NaN when there are no differences, where the average
  confidence is 0 and all counts are zero.
\<close>

theorem compareDocuments_empty_similarity:
  assumes "characterCount leftDoc = 0" and "characterCount rightDoc = 0"
    and "compareDocuments lib leftDoc rightDoc = Inr res"
  shows "overallSimilarity (statistics res) \<noteq> Finite 1 \<and>
         (differences res = [] \<longrightarrow>
            overallSimilarity (statistics res) = NaN \<and>
            averageConfidence (statistics res) = Finite 0 \<and>
            totalDifferences (statistics res) = 0 \<and> additions (statistics res) = 0 \<and>
            deletions (statistics res) = 0 \<and> modifications (statistics res) = 0 \<and>
            formatChanges (statistics res) = 0 \<and> structureChanges (statistics res) = 0 \<and>
            critical (statistics res) = 0 \<and> high (statistics res) = 0 \<and>
            medium (statistics res) = 0 \<and> low (statistics res) = 0)"
proof -
  from assms(3) have stats: "statistics res = calculateStatistics (differences res) leftDoc rightDoc"
    by (rule compareDocuments_Inr)
  have "overallSimilarity (statistics res) \<noteq> Finite 1"
    by (simp add: stats overallSimilarity_no_characters [OF assms(1,2)])
  moreover have "differences res = [] \<longrightarrow>
            overallSimilarity (statistics res) = NaN \<and>
            averageConfidence (statistics res) = Finite 0 \<and>
            totalDifferences (statistics res) = 0 \<and> additions (statistics res) = 0 \<and>
            deletions (statistics res) = 0 \<and> modifications (statistics res) = 0 \<and>
            formatChanges (statistics res) = 0 \<and> structureChanges (statistics res) = 0 \<and>
            critical (statistics res) = 0 \<and> high (statistics res) = 0 \<and>
            medium (statistics res) = 0 \<and> low (statistics res) = 0"
    using assms(1,2) by (simp add: stats calculateStatistics_Nil js_div_def)
  ultimately show ?thesis by blast
qed

lemma compareDocuments_empty_example:
  "case compareDocuments wholeTextLib (parseTextDocument []) (parseTextDocument []) of
     Inl e \<Rightarrow> False
   | Inr res \<Rightarrow> differences res = []"
  by code_simp

lemma characterCount_parseTextDocument: "characterCount (parseTextDocument cont) = length cont"
  by (simp add: parseTextDocument_def Let_def)

theorem compareDocuments_empty_similarity_witness:
  "case compareDocuments wholeTextLib (parseTextDocument []) (parseTextDocument []) of
     Inl e \<Rightarrow> False
   | Inr res \<Rightarrow> differences res = [] \<and>
       overallSimilarity (statistics res) = NaN \<and>
       overallSimilarity (statistics res) \<noteq> Finite 1 \<and>
       averageConfidence (statistics res) = Finite 0 \<and>
       totalDifferences (statistics res) = 0"
proof -
  from compareDocuments_empty_example obtain res
    where res: "compareDocuments wholeTextLib (parseTextDocument []) (parseTextDocument []) = Inr res"
      and none: "differences res = []"
    by (auto split: sum.splits)
  have zero: "characterCount (parseTextDocument []) = 0"
    by (simp add: characterCount_parseTextDocument)
  from compareDocuments_empty_similarity [OF zero zero res] none res
  show ?thesis by simp
qed

section \<open>Bounds of the scores\<close>

subsection \<open>Edit distance\<close>

lemma levRow_bound:
  "length prev = Suc (length xs) \<Longrightarrow> rowBound i j prev \<Longrightarrow> left \<le> max (Suc i) j \<Longrightarrow>
   rowBound (Suc i) (Suc j) (levRow c xs prev left) \<and> length (levRow c xs prev left) = length xs"
proof (induction xs arbitrary: prev left j)
  case Nil
  then show ?case by simp
next
  case (Cons x xs)
  from Cons.prems(1) obtain pd pu ps where prev: "prev = pd # pu # ps"
    by (cases prev; cases "tl prev") auto
  let ?v = "if c = x then pd else min (pd + 1) (min (left + 1) (pu + 1))"
  from Cons.prems(2) have pd: "pd \<le> max i j" and rest: "rowBound i (Suc j) (pu # ps)"
    by (simp_all add: prev)
  from pd have v: "?v \<le> max (Suc i) (Suc j)" by auto
  from Cons.prems(1) have len: "length (pu # ps) = Suc (length xs)" by (simp add: prev)
  from Cons.IH [OF len rest, of ?v] v
  have "rowBound (Suc i) (Suc (Suc j)) (levRow c xs (pu # ps) ?v) \<and>
        length (levRow c xs (pu # ps) ?v) = length xs"
    by simp
  with v show ?case by (simp add: prev Let_def)
qed

lemma levRows_bound:
  "length prev = Suc (length str1) \<Longrightarrow> rowBound i 0 prev \<Longrightarrow>
   length (levRows str1 prev (Suc i) cs) = Suc (length str1) \<and>
   rowBound (i + length cs) 0 (levRows str1 prev (Suc i) cs)"
proof (induction cs arbitrary: prev i)
  case Nil
  then show ?case by simp
next
  case (Cons c cs)
  from levRow_bound [OF Cons.prems(1,2), of "Suc i" c]
  have row: "rowBound (Suc i) (Suc 0) (levRow c str1 prev (Suc i))"
    and len: "length (levRow c str1 prev (Suc i)) = length str1"
    by simp_all
  from row have bound: "rowBound (Suc i) 0 (Suc i # levRow c str1 prev (Suc i))" by simp
  from len have len': "length (Suc i # levRow c str1 prev (Suc i)) = Suc (length str1)" by simp
  from Cons.IH [OF len' bound] show ?case by simp
qed

lemma rowBound_last:
  "rowBound i j row \<Longrightarrow> row \<noteq> [] \<Longrightarrow> last row \<le> max i (j + length row - 1)"
proof (induction row arbitrary: j)
  case Nil
  then show ?case by simp
next
  case (Cons v vs)
  show ?case
  proof (cases "vs = []")
    case True
    with Cons.prems show ?thesis by simp
  next
    case False
    from Cons.prems have "rowBound i (Suc j) vs" by simp
    from Cons.IH [OF this False] False show ?thesis by simp
  qed
qed

lemma rowBound_upt: "rowBound i j [j..<j + n]"
proof (induction n arbitrary: j)
  case 0
  then show ?case by simp
next
  case (Suc n)
  have "[j..<j + Suc n] = j # [Suc j..<Suc j + n]"
    by (simp add: upt_conv_Cons)
  with Suc [of "Suc j"] show ?case by simp
qed

lemma levenshteinDistance_le:
  "levenshteinDistance str1 str2 \<le> max (length str2) (length str1)"
proof -
  let ?row = "levRows str1 [0..<length str1 + 1] (Suc 0) str2"
  have init: "rowBound 0 0 [0..<length str1 + 1]"
    using rowBound_upt [of 0 0 "length str1 + 1"] by simp
  have "length [0..<length str1 + 1] = Suc (length str1)" by simp
  from levRows_bound [OF this init, of str2]
  have len: "length ?row = Suc (length str1)" and bound: "rowBound (length str2) 0 ?row"
    by simp_all
  from len have "?row \<noteq> []" by auto
  from rowBound_last [OF bound this] len show ?thesis
    by (simp add: levenshteinDistance_def)
qed

lemma calculateWordSimilarity_inUnit: "inUnit (calculateWordSimilarity left right)"
proof -
  define longer where "longer = (if length left > length right then left else right)"
  define shorter where "shorter = (if length left > length right then right else left)"
  have le: "length shorter \<le> length longer"
    by (simp add: longer_def shorter_def)
  show ?thesis
  proof (cases "length longer = 0")
    case True
    then show ?thesis
      by (simp add: calculateWordSimilarity_def inUnit_def longer_def [symmetric])
  next
    case False
    from levenshteinDistance_le [of longer shorter] le
    have ed: "levenshteinDistance longer shorter \<le> length longer" by simp
    have "inUnit ((of_nat (length longer) - of_nat (levenshteinDistance longer shorter)) /
        of_nat (length longer))"
      using False ed by (simp add: inUnit_def field_simps)
    with False show ?thesis
      by (simp add: calculateWordSimilarity_def Let_def longer_def [symmetric]
          shorter_def [symmetric])
  qed
qed

subsection \<open>Scores of a result\<close>

lemma scores_emitted:
  "inUnit (similarity (lineAddition rightDoc part k n)) \<and>
   inUnit (confidence (lineAddition rightDoc part k n))"
  "inUnit (similarity (lineDeletion leftDoc part k n)) \<and>
   inUnit (confidence (lineDeletion leftDoc part k n))"
  "inUnit (similarity (wordDifference leftDoc rightDoc i lp rp part n w)) \<and>
   inUnit (confidence (wordDifference leftDoc rightDoc i lp rp part n w))"
  "inUnit (similarity (pageCountDifference leftDoc rightDoc)) \<and>
   inUnit (confidence (pageCountDifference leftDoc rightDoc))"
  "inUnit (similarity (sectionDifference part n)) \<and> inUnit (confidence (sectionDifference part n))"
  using calculateWordSimilarity_inUnit [of lp rp]
  by (simp_all add: lineAddition_def lineDeletion_def wordDifference_def
      pageCountDifference_def sectionDifference_def Let_def)
     (simp_all add: inUnit_def)

lemma foldl_confidence:
  "foldl (\<lambda>sum d. sum + confidence d) a ds = a + sum_list (map confidence ds)"
  by (induction ds arbitrary: a) simp_all

lemma sum_confidence_bounds:
  "\<forall>d \<in> set ds. inUnit (confidence d) \<Longrightarrow>
   0 \<le> sum_list (map confidence ds) \<and> sum_list (map confidence ds) \<le> of_nat (length ds)"
  by (induction ds) (auto simp: inUnit_def)

lemma averageConfidence_inUnit:
  assumes "\<forall>d \<in> set ds. inUnit (confidence d)"
  shows "\<exists>q. averageConfidence (calculateStatistics ds leftDoc rightDoc) = Finite q \<and> inUnit q"
proof (cases "ds = []")
  case True
  then show ?thesis
    by (simp add: averageConfidence_calculateStatistics js_div_def inUnit_def)
next
  case False
  then have pos: "(0::rat) < of_nat (length ds)" by simp
  from sum_confidence_bounds [OF assms] pos
  have "inUnit (sum_list (map confidence ds) / of_nat (length ds))"
    by (simp add: inUnit_def field_simps)
  with False show ?thesis
    by (simp add: averageConfidence_calculateStatistics foldl_confidence js_div_def)
qed

lemma overallSimilarity_cases:
  "overallSimilarity (calculateStatistics ds leftDoc rightDoc) =
     (if max (characterCount leftDoc) (characterCount rightDoc) = 0
      then (if changedChars ds = 0 then NaN else Finite 0)
      else Finite (max 0
        ((of_nat (max (characterCount leftDoc) (characterCount rightDoc)) - of_nat (changedChars ds)) /
         of_nat (max (characterCount leftDoc) (characterCount rightDoc)))))"
  by (simp add: overallSimilarity_calculateStatistics js_div_def)

lemma overallSimilarity_inUnit:
  assumes "\<not> (max (characterCount leftDoc) (characterCount rightDoc) = 0 \<and> changedChars ds = 0)"
  shows "\<exists>q. overallSimilarity (calculateStatistics ds leftDoc rightDoc) = Finite q \<and> inUnit q"
proof (cases "max (characterCount leftDoc) (characterCount rightDoc) = 0")
  case True
  with assms show ?thesis
    by (simp add: overallSimilarity_cases inUnit_def)
next
  case False
  define t where "t = max (characterCount leftDoc) (characterCount rightDoc)"
  from False have "t \<noteq> 0" unfolding t_def by blast
  then have pos: "(0::rat) < of_nat t" by simp
  have "inUnit (max 0 ((of_nat t - of_nat (changedChars ds)) / of_nat t))"
    using pos by (simp add: inUnit_def field_simps)
  with False show ?thesis
    unfolding overallSimilarity_cases t_def by (simp only: if_False) blast
qed

text \<open>
  Claim C8 on the code: in every result the similarity and the confidence of each
  difference and the average confidence lie in the unit interval. The overall similarity
  does so too, except when the larger character count is zero and no difference has
  content: then it is NaN.
\<close>

theorem compareDocuments_scores:
  assumes "compareDocuments lib leftDoc rightDoc = Inr res"
  shows "(\<forall>d \<in> set (differences res). inUnit (similarity d) \<and> inUnit (confidence d)) \<and>
         (\<exists>q. averageConfidence (statistics res) = Finite q \<and> inUnit q) \<and>
         (if max (characterCount leftDoc) (characterCount rightDoc) = 0 \<and>
             changedChars (differences res) = 0
          then overallSimilarity (statistics res) = NaN
          else (\<exists>q. overallSimilarity (statistics res) = Finite q \<and> inUnit q))"
proof -
  from assms have stats: "statistics res = calculateStatistics (differences res) leftDoc rightDoc"
    by (rule compareDocuments_Inr)
  have each: "\<forall>d \<in> set (differences res). inUnit (similarity d) \<and> inUnit (confidence d)"
  proof
    fix d assume "d \<in> set (differences res)"
    from compareDocuments_elem [OF assms this]
    show "inUnit (similarity d) \<and> inUnit (confidence d)"
      by (elim disjE exE) (simp_all only: scores_emitted simp_thms)
  qed
  then have "\<forall>d \<in> set (differences res). inUnit (confidence d)" by blast
  from averageConfidence_inUnit [OF this]
  have avg: "\<exists>q. averageConfidence (statistics res) = Finite q \<and> inUnit q"
    by (simp add: stats)
  have overall: "if max (characterCount leftDoc) (characterCount rightDoc) = 0 \<and>
             changedChars (differences res) = 0
          then overallSimilarity (statistics res) = NaN
          else (\<exists>q. overallSimilarity (statistics res) = Finite q \<and> inUnit q)"
  proof (cases "max (characterCount leftDoc) (characterCount rightDoc) = 0 \<and>
             changedChars (differences res) = 0")
    case True
    then show ?thesis by (simp add: stats overallSimilarity_cases)
  next
    case False
    from overallSimilarity_inUnit [OF this] False show ?thesis
      by (simp only: stats if_False)
  qed
  from each avg overall show ?thesis by blast
qed

theorem compareDocuments_scores_witness:
  "case compareDocuments wholeTextLib (parseTextDocument []) (parseTextDocument []) of
     Inl e \<Rightarrow> False
   | Inr res \<Rightarrow> overallSimilarity (statistics res) = NaN \<and>
       averageConfidence (statistics res) = Finite 0"
proof -
  from compareDocuments_empty_example obtain res
    where res: "compareDocuments wholeTextLib (parseTextDocument []) (parseTextDocument []) = Inr res"
      and none: "differences res = []"
    by (auto split: sum.splits)
  from res have stats: "statistics res =
      calculateStatistics (differences res) (parseTextDocument []) (parseTextDocument [])"
    by (rule compareDocuments_Inr)
  have avg: "averageConfidence (statistics res) = Finite 0"
    by (simp add: stats none calculateStatistics_Nil)
  from compareDocuments_scores [OF res] none
  have "overallSimilarity (statistics res) = NaN"
    by (simp add: characterCount_parseTextDocument changedChars_def)
  with res avg show ?thesis by simp
qed

section \<open>Position index\<close>

subsection \<open>The index as a sequence of writes\<close>










subsection \<open>Keys\<close>










subsection \<open>The pages the parser builds\<close>

























end
